theory Spec2Isabelle
  imports Complex_Main
begin

section \<open>The string service: values and the world it runs in\<close>

text \<open>
  The program is a Go HTTP service with two operations on strings, \<^verbatim>\<open>Uppercase\<close> and
  \<^verbatim>\<open>Count\<close>, two decorators around them (logging, instrumenting), one endpoint adapter
  per operation and one JSON decoder per request type.

  A Go \<^verbatim>\<open>string\<close> is a sequence of bytes, and \<^verbatim>\<open>len\<close> counts its bytes: the model is
  \<^typ>\<open>string\<close>, a list of 8-bit \<^typ>\<open>char\<close>s. Go's \<^verbatim>\<open>int\<close> is \<^typ>\<open>int\<close>: the only
  integers the program makes are \<^verbatim>\<open>-1\<close> and the length of a string, which never leave
  the machine range.

  A Go \<^verbatim>\<open>error\<close> is \<^verbatim>\<open>nil\<close> or a value with an \<^verbatim>\<open>Error()\<close> method: \<^typ>\<open>'a option\<close> over
  the errors below, \<^const>\<open>None\<close> for \<^verbatim>\<open>nil\<close>. An error is modelled by its kind and
  message; the identity of the pointer that \<^verbatim>\<open>errors.New\<close> allocates is not modelled.
  The messages of the two errors of \<^verbatim>\<open>encoding/json\<close> are not modelled either.
\<close>

datatype error =
    errorString string
  | SyntaxError
  | UnmarshalTypeError

definition errors_New :: "string \<Rightarrow> error" where
  "errors_New text = errorString text"

primrec Error :: "error \<Rightarrow> string" where
  "Error (errorString m) = m"

type_synonym Time = int
type_synonym Duration = int
type_synonym float64 = real

text \<open>
  A \<^verbatim>\<open>time.Time\<close> and a \<^verbatim>\<open>time.Duration\<close> are counts of nanoseconds. A \<^verbatim>\<open>float64\<close> is
  modelled by the real number it stands for; rounding is outside the model (the
  conversion \<^verbatim>\<open>float64(n)\<close> of an \<^verbatim>\<open>int\<close> is exact up to \<open>2 ^ 53\<close>).
\<close>

datatype logval =
    LString string
  | LInt int
  | LError "error option"
  | LDuration Duration

type_synonym keyvals = "(string \<times> logval) list"

text \<open>
  Everything the program touches outside its own values is a field of the world:
  the readings the system clock gives, in the order they are taken; the lines the
  logfmt logger of \<^verbatim>\<open>main\<close> has written to standard error, each the key/value pairs of
  one \<^verbatim>\<open>Log\<close> call; and the three Prometheus metrics of \<^verbatim>\<open>main\<close>, the counter as the
  value of each labelled series, the two summaries as the observations they received.
\<close>

record world =
  clock :: "nat \<Rightarrow> Time"
  reads :: nat
  stderr :: "keyvals list"
  request_count :: "string list \<Rightarrow> float64"
  request_latency :: "(string list \<times> float64) list"
  count_result :: "float64 list"

definition time_Now :: "world \<Rightarrow> Time \<times> world" where
  "time_Now w = (clock w (reads w), w\<lparr>reads := Suc (reads w)\<rparr>)"

definition time_Since :: "Time \<Rightarrow> world \<Rightarrow> Duration \<times> world" where
  "time_Since begin w = (let (now, w') = time_Now w in (now - begin, w'))"

definition Seconds :: "Duration \<Rightarrow> float64" where
  "Seconds d = real_of_int d / 1000000000"

definition float64_of_int :: "int \<Rightarrow> float64" where
  "float64_of_int n = real_of_int n"

definition fmt_Sprint :: "bool \<Rightarrow> string" where
  "fmt_Sprint b = (if b then ''true'' else ''false'')"


section \<open>\<^verbatim>\<open>strings.ToUpper\<close>\<close>

text \<open>
  A string is read as UTF-8 the way \<^verbatim>\<open>utf8.DecodeRuneInString\<close> reads it, here on the
  values of the bytes. A byte below 128 is its own code point. A leading byte from
  C2 to F4 takes one, two or three continuation bytes (80 to BF), the first of them in
  a narrower range after E0, ED, F0 and F4, which rules out overlong forms, surrogates
  and code points above U+10FFFF. Any byte that does not start such a sequence is read
  alone as U+FFFD (65533), the replacement character.
\<close>

definition second_lo :: "nat \<Rightarrow> nat" where
  "second_lo b0 = (if b0 = 224 then 160 else if b0 = 240 then 144 else 128)"

definition second_hi :: "nat \<Rightarrow> nat" where
  "second_hi b0 = (if b0 = 237 then 159 else if b0 = 244 then 143 else 191)"

definition continuation :: "nat \<Rightarrow> bool" where
  "continuation b = (128 \<le> b \<and> b \<le> 191)"

definition decode_multi :: "nat \<Rightarrow> nat list \<Rightarrow> (nat \<times> nat) option" where
  "decode_multi b0 bs =
     (if 194 \<le> b0 \<and> b0 \<le> 223 then
        (case bs of
           b1 # _ \<Rightarrow>
             if continuation b1 then Some ((b0 - 192) * 64 + (b1 - 128), 1) else None
         | _ \<Rightarrow> None)
      else if 224 \<le> b0 \<and> b0 \<le> 239 then
        (case bs of
           b1 # b2 # _ \<Rightarrow>
             if second_lo b0 \<le> b1 \<and> b1 \<le> second_hi b0 \<and> continuation b2
             then Some ((b0 - 224) * 4096 + (b1 - 128) * 64 + (b2 - 128), 2) else None
         | _ \<Rightarrow> None)
      else if 240 \<le> b0 \<and> b0 \<le> 244 then
        (case bs of
           b1 # b2 # b3 # _ \<Rightarrow>
             if second_lo b0 \<le> b1 \<and> b1 \<le> second_hi b0 \<and> continuation b2 \<and> continuation b3
             then Some ((b0 - 240) * 262144 + (b1 - 128) * 4096 + (b2 - 128) * 64 + (b3 - 128), 3)
             else None
         | _ \<Rightarrow> None)
      else None)"

function decode_runes :: "nat list \<Rightarrow> nat list" where
  "decode_runes [] = []"
| "decode_runes (b0 # bs) =
     (if b0 < 128 then b0 # decode_runes bs
      else (case decode_multi b0 bs of
              Some (r, n) \<Rightarrow> r # decode_runes (drop n bs)
            | None \<Rightarrow> 65533 # decode_runes bs))"
  by pat_completeness auto
termination
  by (relation "measure length") auto

text \<open>
  \<^verbatim>\<open>utf8.AppendRune\<close> writes a code point in one to four bytes, and the replacement
  character for a surrogate or a number above U+10FFFF.
\<close>

definition encode_rune :: "nat \<Rightarrow> nat list" where
  "encode_rune r =
     (if r \<le> 127 then [r]
      else if r \<le> 2047 then [192 + r div 64, 128 + r mod 64]
      else if 1114111 < r \<or> (55296 \<le> r \<and> r \<le> 57343) then [239, 191, 189]
      else if r \<le> 65535 then [224 + r div 4096, 128 + r div 64 mod 64, 128 + r mod 64]
      else [240 + r div 262144, 128 + r div 4096 mod 64, 128 + r div 64 mod 64, 128 + r mod 64])"

text \<open>
  \<^verbatim>\<open>strings.Map\<close> gives the string of the mapped code points of its argument, in
  order. (The mapping here never asks for a character to be dropped.)
\<close>

definition strings_Map :: "(nat \<Rightarrow> nat) \<Rightarrow> string \<Rightarrow> string" where
  "strings_Map mapping s =
     map char_of (concat (map (\<lambda>c. encode_rune (mapping c)) (decode_runes (map of_char s))))"

text \<open>
  \<^verbatim>\<open>unicode.ToUpper\<close> answers for ASCII by itself: the letters \<^verbatim>\<open>a\<close> to \<^verbatim>\<open>z\<close> move down
  by 32. Any other code point is looked up in the case table of Unicode. The entries
  of the table below U+0100 are written out: the micro sign goes to the Greek capital
  mu, the letters E0 to F6 and F8 to FE move down by 32, and y with diaeresis goes to
  U+0178. The replacement character has no other case. The rest of the table, from
  U+0100 on, is the parameter \<open>U\<close>.
\<close>

definition unicode_ToUpper :: "(nat \<Rightarrow> nat) \<Rightarrow> nat \<Rightarrow> nat" where
  "unicode_ToUpper U r =
     (if r \<le> 127 then (if 97 \<le> r \<and> r \<le> 122 then r - 32 else r)
      else if r \<le> 255 then
        (if r = 181 then 924
         else if (224 \<le> r \<and> r \<le> 246) \<or> (248 \<le> r \<and> r \<le> 254) then r - 32
         else if r = 255 then 376
         else r)
      else if r = 65533 then 65533
      else U r)"

text \<open>
  \<^verbatim>\<open>strings.ToUpper\<close> takes a fast path when every byte of the string is below
  \<^verbatim>\<open>utf8.RuneSelf\<close> (128): it returns the string itself when it has no letter from
  \<^verbatim>\<open>a\<close> to \<^verbatim>\<open>z\<close>, and otherwise moves those bytes down by 32. Any other string goes
  through \<^verbatim>\<open>strings.Map(unicode.ToUpper, s)\<close>.
\<close>

definition isASCII :: "char \<Rightarrow> bool" where
  "isASCII c = ((of_char c :: nat) < 128)"

definition isLower :: "char \<Rightarrow> bool" where
  "isLower c = ((97::nat) \<le> of_char c \<and> (of_char c :: nat) \<le> 122)"

definition upperASCII :: "char \<Rightarrow> char" where
  "upperASCII c =
     (if (97::nat) \<le> of_char c \<and> (of_char c :: nat) \<le> 122
      then char_of ((of_char c :: nat) - 32) else c)"

definition ToUpper :: "(nat \<Rightarrow> nat) \<Rightarrow> string \<Rightarrow> string" where
  "ToUpper U s =
     (if list_all isASCII s then (if list_ex isLower s then map upperASCII s else s)
      else strings_Map (unicode_ToUpper U) s)"


section \<open>The service\<close>

text \<open>
  \<^verbatim>\<open>IStringService\<close> is an interface of two methods. A method takes the context and
  the string, runs in a world and returns its two results with the world it leaves.
\<close>

record 'c IStringService =
  Uppercase :: "'c \<Rightarrow> string \<Rightarrow> world \<Rightarrow> (string \<times> error option) \<times> world"
  Count :: "'c \<Rightarrow> string \<Rightarrow> world \<Rightarrow> (int \<times> error option) \<times> world"

definition stringService_Uppercase ::
  "(nat \<Rightarrow> nat) \<Rightarrow> 'c \<Rightarrow> string \<Rightarrow> world \<Rightarrow> (string \<times> error option) \<times> world" where
  "stringService_Uppercase U ctx s w =
     (if s = '''' then (('''', Some (errors_New ''Empty string'')), w)
      else ((ToUpper U s, None), w))"

definition stringService_Count ::
  "'c \<Rightarrow> string \<Rightarrow> world \<Rightarrow> (int \<times> error option) \<times> world" where
  "stringService_Count ctx s w =
     (if s = '''' then ((- 1, Some (errors_New ''Empty string'')), w)
      else ((int (length s), None), w))"

definition stringService :: "(nat \<Rightarrow> nat) \<Rightarrow> 'c IStringService" where
  "stringService U =
     \<lparr>Uppercase = stringService_Uppercase U, Count = stringService_Count\<rparr>"


section \<open>The middlewares\<close>

subsection \<open>Logging\<close>

text \<open>
  A \<^verbatim>\<open>log.Logger\<close> has one method, \<^verbatim>\<open>Log\<close>, given the key/value pairs; the middleware
  drops the error it returns. The logger of \<^verbatim>\<open>main\<close> writes one line to standard error
  for each call.

  Each method defers a closure whose argument \<^verbatim>\<open>time.Now()\<close> is evaluated at the
  \<^verbatim>\<open>defer\<close> statement, before the wrapped call; the closure runs when the method returns
  and sees the named results as the wrapped call left them.
\<close>

type_synonym Logger = "keyvals \<Rightarrow> world \<Rightarrow> world"

definition LogfmtLogger :: Logger where
  "LogfmtLogger kvs w = w\<lparr>stderr := stderr w @ [kvs]\<rparr>"

definition loggingMiddleware_Uppercase ::
  "Logger \<Rightarrow> 'c IStringService \<Rightarrow> 'c \<Rightarrow> string \<Rightarrow> world \<Rightarrow> (string \<times> error option) \<times> world" where
  "loggingMiddleware_Uppercase logger next ctx s w =
     (let (begin, w1) = time_Now w;
          ((output, err), w2) = Uppercase next ctx s w1;
          (took, w3) = time_Since begin w2
      in ((output, err),
          logger [(''method'', LString ''uppercase''),
                  (''input'', LString s),
                  (''output'', LString output),
                  (''err'', LError err),
                  (''took'', LDuration took)] w3))"

definition loggingMiddleware_Count ::
  "Logger \<Rightarrow> 'c IStringService \<Rightarrow> 'c \<Rightarrow> string \<Rightarrow> world \<Rightarrow> (int \<times> error option) \<times> world" where
  "loggingMiddleware_Count logger next ctx s w =
     (let (begin, w1) = time_Now w;
          ((n, err), w2) = Count next ctx s w1;
          (took, w3) = time_Since begin w2
      in ((n, err),
          logger [(''method'', LString ''count''),
                  (''input'', LString s),
                  (''n'', LInt n),
                  (''took'', LDuration took)] w3))"

definition loggingMiddleware :: "Logger \<Rightarrow> 'c IStringService \<Rightarrow> 'c IStringService" where
  "loggingMiddleware logger next =
     \<lparr>Uppercase = loggingMiddleware_Uppercase logger next,
      Count = loggingMiddleware_Count logger next\<rparr>"

subsection \<open>Instrumentation\<close>

text \<open>
  A \<^verbatim>\<open>metrics.Counter\<close> is used as \<^verbatim>\<open>With(lvs...).Add(delta)\<close> and a
  \<^verbatim>\<open>metrics.Histogram\<close> as \<^verbatim>\<open>With(lvs...).Observe(value)\<close>; the count-result summary has
  no labels and is observed directly, which is the empty list of label values.
\<close>

type_synonym Counter = "string list \<Rightarrow> float64 \<Rightarrow> world \<Rightarrow> world"
type_synonym Histogram = "string list \<Rightarrow> float64 \<Rightarrow> world \<Rightarrow> world"

definition prom_requestCount :: Counter where
  "prom_requestCount lvs delta w =
     w\<lparr>request_count := (request_count w)(lvs := request_count w lvs + delta)\<rparr>"

definition prom_requestLatency :: Histogram where
  "prom_requestLatency lvs v w = w\<lparr>request_latency := request_latency w @ [(lvs, v)]\<rparr>"

definition prom_countResult :: Histogram where
  "prom_countResult lvs v w = w\<lparr>count_result := count_result w @ [v]\<rparr>"

definition instrumentingMiddleware_Uppercase ::
  "Counter \<Rightarrow> Histogram \<Rightarrow> Histogram \<Rightarrow> 'c IStringService \<Rightarrow>
   'c \<Rightarrow> string \<Rightarrow> world \<Rightarrow> (string \<times> error option) \<times> world" where
  "instrumentingMiddleware_Uppercase requestCount requestLatency countResult next ctx s w =
     (let (begin, w1) = time_Now w;
          ((output, err), w2) = Uppercase next ctx s w1;
          lvs = [''method'', ''uppercase'', ''error'', fmt_Sprint (err \<noteq> None)];
          w3 = requestCount lvs 1 w2;
          (took, w4) = time_Since begin w3
      in ((output, err), requestLatency lvs (Seconds took) w4))"

definition instrumentingMiddleware_Count ::
  "Counter \<Rightarrow> Histogram \<Rightarrow> Histogram \<Rightarrow> 'c IStringService \<Rightarrow>
   'c \<Rightarrow> string \<Rightarrow> world \<Rightarrow> (int \<times> error option) \<times> world" where
  "instrumentingMiddleware_Count requestCount requestLatency countResult next ctx s w =
     (let (begin, w1) = time_Now w;
          ((n, err), w2) = Count next ctx s w1;
          lvs = [''method'', ''count'', ''error'', ''false''];
          w3 = requestCount lvs 1 w2;
          (took, w4) = time_Since begin w3;
          w5 = requestLatency lvs (Seconds took) w4
      in ((n, err), countResult [] (float64_of_int n) w5))"

definition instrumentingMiddleware ::
  "Counter \<Rightarrow> Histogram \<Rightarrow> Histogram \<Rightarrow> 'c IStringService \<Rightarrow> 'c IStringService" where
  "instrumentingMiddleware requestCount requestLatency countResult next =
     \<lparr>Uppercase = instrumentingMiddleware_Uppercase requestCount requestLatency countResult next,
      Count = instrumentingMiddleware_Count requestCount requestLatency countResult next\<rparr>"

text \<open>The service \<^verbatim>\<open>main\<close> builds: the string service, logged, then instrumented.\<close>

definition main_svc :: "(nat \<Rightarrow> nat) \<Rightarrow> 'c IStringService" where
  "main_svc U =
     instrumentingMiddleware prom_requestCount prom_requestLatency prom_countResult
       (loggingMiddleware LogfmtLogger (stringService U))"


section \<open>Endpoints\<close>

text \<open>
  An endpoint takes and returns \<^verbatim>\<open>interface{}\<close>. The values that the program puts
  behind that type are the two requests, the two responses and \<^verbatim>\<open>nil\<close>. The type
  assertion at the head of each endpoint panics on a value of another dynamic type.
\<close>

datatype uppercaseRequest = uppercaseRequest (uppercaseRequest_S: string)

datatype uppercaseResponse =
  uppercaseResponse (uppercaseResponse_V: string) (uppercaseResponse_Err: string)

datatype countRequest = countRequest (countRequest_S: string)

datatype countResponse =
  countResponse (countResponse_V: int) (countResponse_Err: string)

datatype any =
    Nil
  | UppercaseRequest uppercaseRequest
  | UppercaseResponse uppercaseResponse
  | CountRequest countRequest
  | CountResponse countResponse

datatype panic = InterfaceConversion

type_synonym 'c Endpoint = "'c \<Rightarrow> any \<Rightarrow> world \<Rightarrow> (panic + any \<times> error option) \<times> world"

definition makeUppercaseEndpoint :: "'c IStringService \<Rightarrow> 'c Endpoint" where
  "makeUppercaseEndpoint svc ctx request w =
     (case request of
        UppercaseRequest req \<Rightarrow>
          (let ((v, err), w') = Uppercase svc ctx (uppercaseRequest_S req) w
           in case err of
                Some e \<Rightarrow> (Inr (UppercaseResponse (uppercaseResponse '''' (Error e)), None), w')
              | None \<Rightarrow> (Inr (UppercaseResponse (uppercaseResponse v ''''), None), w'))
      | _ \<Rightarrow> (Inl InterfaceConversion, w))"

definition makeCountEndpoint :: "'c IStringService \<Rightarrow> 'c Endpoint" where
  "makeCountEndpoint svc ctx request w =
     (case request of
        CountRequest req \<Rightarrow>
          (let ((v, err), w') = Count svc ctx (countRequest_S req) w
           in case err of
                Some e \<Rightarrow> (Inr (CountResponse (countResponse (- 1) (Error e)), None), w')
              | None \<Rightarrow> (Inr (CountResponse (countResponse v ''''), None), w'))
      | _ \<Rightarrow> (Inl InterfaceConversion, w))"


section \<open>Transport: decoding, encoding, serving\<close>

text \<open>
  The lexical layer of \<^verbatim>\<open>encoding/json\<close> is not modelled: the body of a request is the
  JSON value it starts with, or the way in which it fails to start with one. A body
  that is empty or white space gives \<^verbatim>\<open>io.EOF\<close>, a body that ends inside a value gives
  \<^verbatim>\<open>io.ErrUnexpectedEOF\<close> (both are made by \<^verbatim>\<open>errors.New\<close>), and a body with a byte
  that no JSON value can have in its place gives a syntax error.

  \<^verbatim>\<open>Decode\<close> into a struct with the one field \<^verbatim>\<open>S string `json:"s"`\<close> takes \<^verbatim>\<open>null\<close> and
  leaves the struct as it is; takes an object and, member by member in the order of
  the text, stores a string under a key that names the field (bytes that are not valid
  UTF-8 become U+FFFD), leaves the field on \<^verbatim>\<open>null\<close>, and on any other value notes a
  type error, goes on, and returns the error at the end; members under other keys are
  skipped; any other JSON value is a type error. The decoders drop the struct when
  \<^verbatim>\<open>Decode\<close> returns an error. A key names the field when it is equal to \<^verbatim>\<open>s\<close> under the
  case folding of the library: \<^verbatim>\<open>s\<close>, \<^verbatim>\<open>S\<close> and the long s (U+017F, the bytes C5 BF).
\<close>

datatype json =
    JNull
  | JBool bool
  | JNumber real
  | JString string
  | JArray "json list"
  | JObject "(string \<times> json) list"

datatype body =
    NoValue
  | Truncated
  | Malformed
  | Value json

record Request =
  Body :: body

definition coerce_utf8 :: "string \<Rightarrow> string" where
  "coerce_utf8 s = map char_of (concat (map encode_rune (decode_runes (map of_char s))))"

definition names_field_s :: "string \<Rightarrow> bool" where
  "names_field_s k = (k = ''s'' \<or> k = ''S'' \<or> k = [char_of (197::nat), char_of (191::nat)])"

fun decode_members :: "(string \<times> json) list \<Rightarrow> string \<Rightarrow> bool \<Rightarrow> error + string" where
  "decode_members [] S failed = (if failed then Inl UnmarshalTypeError else Inr S)"
| "decode_members ((k, v) # ms) S failed =
     (if names_field_s k then
        (case v of
           JString x \<Rightarrow> decode_members ms (coerce_utf8 x) failed
         | JNull \<Rightarrow> decode_members ms S failed
         | _ \<Rightarrow> decode_members ms S True)
      else decode_members ms S failed)"

definition json_Decode :: "Request \<Rightarrow> string \<Rightarrow> error + string" where
  "json_Decode r S =
     (case Body r of
        NoValue \<Rightarrow> Inl (errors_New ''EOF'')
      | Truncated \<Rightarrow> Inl (errors_New ''unexpected EOF'')
      | Malformed \<Rightarrow> Inl SyntaxError
      | Value JNull \<Rightarrow> Inr S
      | Value (JObject ms) \<Rightarrow> decode_members ms S False
      | Value _ \<Rightarrow> Inl UnmarshalTypeError)"

definition decodeUppercaseRequest :: "'c \<Rightarrow> Request \<Rightarrow> any \<times> error option" where
  "decodeUppercaseRequest ctx r =
     (case json_Decode r '''' of
        Inl err \<Rightarrow> (Nil, Some err)
      | Inr S \<Rightarrow> (UppercaseRequest (uppercaseRequest S), None))"

definition decodeCountRequest :: "'c \<Rightarrow> Request \<Rightarrow> any \<times> error option" where
  "decodeCountRequest ctx r =
     (case json_Decode r '''' of
        Inl err \<Rightarrow> (Nil, Some err)
      | Inr S \<Rightarrow> (CountRequest (countRequest S), None))"

text \<open>
  \<^verbatim>\<open>encodeResponse\<close> writes the response as JSON; a field tagged \<^verbatim>\<open>omitempty\<close> is left
  out when it is the empty string, and in a string the bytes that are not valid UTF-8
  are written as U+FFFD.
\<close>

definition encodeResponse :: "any \<Rightarrow> json" where
  "encodeResponse response =
     (case response of
        Nil \<Rightarrow> JNull
      | UppercaseRequest req \<Rightarrow> JObject [(''s'', JString (coerce_utf8 (uppercaseRequest_S req)))]
      | CountRequest req \<Rightarrow> JObject [(''s'', JString (coerce_utf8 (countRequest_S req)))]
      | UppercaseResponse res \<Rightarrow>
          JObject ((''v'', JString (coerce_utf8 (uppercaseResponse_V res))) #
            (if uppercaseResponse_Err res = '''' then []
             else [(''err'', JString (coerce_utf8 (uppercaseResponse_Err res)))]))
      | CountResponse res \<Rightarrow>
          JObject ((''v'', JNumber (real_of_int (countResponse_V res))) #
            (if countResponse_Err res = '''' then []
             else [(''err'', JString (coerce_utf8 (countResponse_Err res)))])))"

text \<open>
  The handler that \<^verbatim>\<open>httptransport.NewServer\<close> makes decodes the request, and answers
  with a transport error when that fails; calls the endpoint, and answers with a
  transport error when it returns one; and encodes the response otherwise.
\<close>

datatype reply =
    Encoded json
  | TransportError error
  | Panicked panic

definition ServeHTTP ::
  "'c Endpoint \<Rightarrow> ('c \<Rightarrow> Request \<Rightarrow> any \<times> error option) \<Rightarrow> 'c \<Rightarrow> Request \<Rightarrow> world \<Rightarrow> reply \<times> world" where
  "ServeHTTP e dec ctx r w =
     (case dec ctx r of
        (_, Some err) \<Rightarrow> (TransportError err, w)
      | (request, None) \<Rightarrow>
          (case e ctx request w of
             (Inl p, w') \<Rightarrow> (Panicked p, w')
           | (Inr (_, Some err), w') \<Rightarrow> (TransportError err, w')
           | (Inr (response, None), w') \<Rightarrow> (Encoded (encodeResponse response), w')))"

definition uppercaseHandler :: "(nat \<Rightarrow> nat) \<Rightarrow> 'c \<Rightarrow> Request \<Rightarrow> world \<Rightarrow> reply \<times> world" where
  "uppercaseHandler U = ServeHTTP (makeUppercaseEndpoint (main_svc U)) decodeUppercaseRequest"

definition countHandler :: "(nat \<Rightarrow> nat) \<Rightarrow> 'c \<Rightarrow> Request \<Rightarrow> world \<Rightarrow> reply \<times> world" where
  "countHandler U = ServeHTTP (makeCountEndpoint (main_svc U)) decodeCountRequest"


section \<open>Notions the statements use\<close>

text \<open>
  The world as \<^verbatim>\<open>main\<close> leaves it before the first request: no clock reading taken by
  the service, nothing logged, no metric touched. The clock is the parameter.
\<close>

definition startup :: "(nat \<Rightarrow> Time) \<Rightarrow> world" where
  "startup clk =
     \<lparr>clock = clk, reads = 0, stderr = [], request_count = (\<lambda>lvs. 0),
      request_latency = [], count_result = []\<rparr>"

text \<open>
  One such world, for running the model: the clock gives a reading every microsecond,
  starting at 0.
\<close>

definition tick :: "nat \<Rightarrow> Time" where
  "tick k = 1000 * int k"

definition boot :: world where
  "boot = startup tick"

text \<open>
  The character length of a string, following the words of the specification: the
  number of characters (Unicode code points) of the text that the bytes encode in
  UTF-8. Every code point has one leading byte, followed by continuation bytes (the
  bytes from 128 to 191) when it is not ASCII, so the characters are counted by their
  leading bytes.
\<close>

definition is_continuation :: "char \<Rightarrow> bool" where
  "is_continuation c = ((128::nat) \<le> of_char c \<and> (of_char c :: nat) < 192)"

definition character_length :: "string \<Rightarrow> nat" where
  "character_length s = length (filter (\<lambda>c. \<not> is_continuation c) s)"

text \<open>The keys of a log line, in the order they were given.\<close>

definition keys :: "keyvals \<Rightarrow> string list" where
  "keys kvs = map fst kvs"


section \<open>What a middleware returns and what it leaves behind\<close>

text \<open>
  A middleware takes one clock reading and then hands the call to the service it
  wraps. Its results are the results of that inner call.
\<close>

lemma fst_time_Now: "fst (time_Now w) = clock w (reads w)"
  by (simp add: time_Now_def)

lemma logging_Uppercase_result:
  "fst (loggingMiddleware_Uppercase logger next ctx s w) =
   fst (Uppercase next ctx s (snd (time_Now w)))"
  by (simp add: loggingMiddleware_Uppercase_def Let_def split: prod.splits)

lemma logging_Count_result:
  "fst (loggingMiddleware_Count logger next ctx s w) =
   fst (Count next ctx s (snd (time_Now w)))"
  by (simp add: loggingMiddleware_Count_def Let_def split: prod.splits)

lemma instrumenting_Uppercase_result:
  "fst (instrumentingMiddleware_Uppercase rc rl cr next ctx s w) =
   fst (Uppercase next ctx s (snd (time_Now w)))"
  by (simp add: instrumentingMiddleware_Uppercase_def Let_def split: prod.splits)

lemma instrumenting_Count_result:
  "fst (instrumentingMiddleware_Count rc rl cr next ctx s w) =
   fst (Count next ctx s (snd (time_Now w)))"
  by (simp add: instrumentingMiddleware_Count_def Let_def split: prod.splits)

text \<open>The string service ignores the world and leaves it as it was.\<close>

lemma stringService_Uppercase_world:
  "snd (stringService_Uppercase U ctx s w) = w"
  by (simp add: stringService_Uppercase_def)

lemma stringService_Count_world:
  "snd (stringService_Count ctx s w) = w"
  by (simp add: stringService_Count_def)

lemma stringService_Uppercase_any_world:
  "fst (stringService_Uppercase U ctx s w) = fst (stringService_Uppercase U ctx s w')"
  by (simp add: stringService_Uppercase_def)

lemma stringService_Count_any_world:
  "fst (stringService_Count ctx s w) = fst (stringService_Count ctx s w')"
  by (simp add: stringService_Count_def)

text \<open>The service of \<^verbatim>\<open>main\<close> returns what the string service returns.\<close>

lemma main_svc_Uppercase_result:
  "fst (Uppercase (main_svc U) ctx s w) = fst (stringService_Uppercase U ctx s w)"
  by (simp add: main_svc_def instrumentingMiddleware_def loggingMiddleware_def stringService_def
      instrumenting_Uppercase_result logging_Uppercase_result stringService_Uppercase_def)

lemma main_svc_Count_result:
  "fst (Count (main_svc U) ctx s w) = fst (stringService_Count ctx s w)"
  by (simp add: main_svc_def instrumentingMiddleware_def loggingMiddleware_def stringService_def
      instrumenting_Count_result logging_Count_result stringService_Count_def)

text \<open>
  The line that the logging middleware writes, with the logger of \<^verbatim>\<open>main\<close>: it comes
  after whatever the inner call wrote, and \<^verbatim>\<open>took\<close> is the difference of the reading
  taken after the inner call and the one taken before it.
\<close>

lemma logging_Uppercase_line:
  "stderr (snd (loggingMiddleware_Uppercase LogfmtLogger next ctx s w)) =
     (let ((output, err), w2) = Uppercase next ctx s (snd (time_Now w))
      in stderr w2 @
         [[(''method'', LString ''uppercase''), (''input'', LString s),
           (''output'', LString output), (''err'', LError err),
           (''took'', LDuration (clock w2 (reads w2) - clock w (reads w)))]])"
  by (simp add: loggingMiddleware_Uppercase_def LogfmtLogger_def time_Since_def time_Now_def
      Let_def split: prod.splits)

lemma logging_Count_line:
  "stderr (snd (loggingMiddleware_Count LogfmtLogger next ctx s w)) =
     (let ((n, err), w2) = Count next ctx s (snd (time_Now w))
      in stderr w2 @
         [[(''method'', LString ''count''), (''input'', LString s), (''n'', LInt n),
           (''took'', LDuration (clock w2 (reads w2) - clock w (reads w)))]])"
  by (simp add: loggingMiddleware_Count_def LogfmtLogger_def time_Since_def time_Now_def
      Let_def split: prod.splits)

text \<open>
  The \<^verbatim>\<open>Uppercase\<close> method of the logging middleware writes exactly one line on every
  return of the inner call, and the line has the operation, the input, the output,
  the error and the duration.
\<close>

lemma loggingMiddleware_Uppercase_logs_err:
  "\<exists>line. stderr (snd (loggingMiddleware_Uppercase LogfmtLogger next ctx s w)) =
            stderr (snd (Uppercase next ctx s (snd (time_Now w)))) @ [line] \<and>
          keys line = [''method'', ''input'', ''output'', ''err'', ''took''] \<and>
          map_of line ''err'' =
            Some (LError (snd (fst (loggingMiddleware_Uppercase LogfmtLogger next ctx s w))))"
  by (simp add: logging_Uppercase_line logging_Uppercase_result keys_def Let_def
      split: prod.splits)


section \<open>Strings of ASCII bytes, and the fast path of \<^verbatim>\<open>strings.ToUpper\<close>\<close>

text \<open>
  A string of ASCII bytes decodes to its own bytes and is written back as it is.
\<close>

lemma decode_runes_ascii: "list_all (\<lambda>b. b < 128) bs \<Longrightarrow> decode_runes bs = bs"
  by (induction bs) simp_all

lemma encode_runes_ascii:
  "list_all (\<lambda>b. b < 128) bs \<Longrightarrow> concat (map encode_rune bs) = bs"
  by (induction bs) (simp_all add: encode_rune_def)

lemma bytes_ascii:
  "list_all isASCII s \<Longrightarrow> list_all (\<lambda>b. b < (128::nat)) (map of_char s)"
  by (induction s) (simp_all add: isASCII_def)

lemma chars_of_bytes: "map char_of (map of_char s :: nat list) = s"
  by (induction s) simp_all

lemma coerce_utf8_ascii:
  assumes "list_all isASCII s"
  shows "coerce_utf8 s = s"
proof -
  have "decode_runes (map of_char s) = map of_char s"
    using assms by (rule decode_runes_ascii [OF bytes_ascii])
  moreover have "concat (map encode_rune (map of_char s)) = map of_char s"
    using assms by (rule encode_runes_ascii [OF bytes_ascii])
  ultimately show ?thesis
    unfolding coerce_utf8_def by (simp only: chars_of_bytes)
qed

text \<open>
  On a string of ASCII bytes the general path of \<^verbatim>\<open>strings.ToUpper\<close> does what the fast
  path does, so on every string \<^verbatim>\<open>strings.ToUpper\<close> is the string of the upper cases
  of its characters.
\<close>

lemma upper_rune_ascii:
  "b < 128 \<Longrightarrow>
   encode_rune (unicode_ToUpper U b) = [if 97 \<le> b \<and> b \<le> 122 then b - 32 else b]"
  by (auto simp: encode_rune_def unicode_ToUpper_def)

lemma upper_runes_ascii:
  "list_all (\<lambda>b. b < 128) bs \<Longrightarrow>
   concat (map (\<lambda>c. encode_rune (unicode_ToUpper U c)) bs) =
     map (\<lambda>b. if 97 \<le> b \<and> b \<le> 122 then b - 32 else b) bs"
  by (induction bs) (simp_all add: upper_rune_ascii)

lemma upper_bytes_chars:
  "map char_of
     (map (\<lambda>b. if 97 \<le> b \<and> b \<le> 122 then b - 32 else b) (map of_char s :: nat list)) =
   map upperASCII s"
  by (induction s) (simp_all add: upperASCII_def)

lemma strings_Map_ToUpper_ascii:
  assumes "list_all isASCII s"
  shows "strings_Map (unicode_ToUpper U) s = map upperASCII s"
proof -
  have "decode_runes (map of_char s) = map of_char s"
    using assms by (rule decode_runes_ascii [OF bytes_ascii])
  moreover have "concat (map (\<lambda>c. encode_rune (unicode_ToUpper U c)) (map of_char s)) =
      map (\<lambda>b. if 97 \<le> b \<and> b \<le> 122 then b - 32 else b) (map of_char s)"
    using assms by (rule upper_runes_ascii [OF bytes_ascii])
  ultimately show ?thesis
    unfolding strings_Map_def by (simp only: upper_bytes_chars)
qed


lemma upperASCII_fixed: "\<not> list_ex isLower s \<Longrightarrow> map upperASCII s = s"
  by (induction s) (auto simp: upperASCII_def isLower_def)

lemma ToUpper_characterwise: "ToUpper U s = strings_Map (unicode_ToUpper U) s"
  by (simp add: ToUpper_def strings_Map_ToUpper_ascii upperASCII_fixed)



text \<open>Two strings, evaluated.\<close>

lemma hello_ascii: "list_all isASCII ''hello''"
  by (simp add: isASCII_def)

lemma hello_upperASCII: "map upperASCII ''hello'' = ''HELLO''"
  by code_simp

lemma hello_upper: "ToUpper U ''hello'' = ''HELLO''"
  by (simp only: ToUpper_characterwise strings_Map_ToUpper_ascii [OF hello_ascii]
      hello_upperASCII)

lemma abce_decoded:
  "decode_runes (map of_char
       [CHR ''a'', CHR ''b'', CHR ''c'', char_of (195::nat), char_of (169::nat)]) =
     [97, 98, 99, 233]"
  by (simp add: decode_multi_def continuation_def second_lo_def second_hi_def)



section \<open>The claims\<close>

text \<open>
  Claim C2. Through the logging middleware, every call of either operation writes
  exactly one log line on every return, with the operation, the input, the result,
  the error and the duration; in particular the line of a failing \<^verbatim>\<open>Count\<close> has the
  error.

  The code does not do that for \<^verbatim>\<open>Count\<close>. Its \<^verbatim>\<open>Count\<close> method writes exactly one line
  after the inner call, and the keys of the line are \<^verbatim>\<open>method\<close>, \<^verbatim>\<open>input\<close>, \<^verbatim>\<open>n\<close> and
  \<^verbatim>\<open>took\<close>: there is no \<^verbatim>\<open>err\<close>, whatever the inner call returned. The \<^verbatim>\<open>Uppercase\<close>
  method beside it does log the error (\<open>loggingMiddleware_Uppercase_logs_err\<close>).
\<close>

theorem loggingMiddleware_Count_omits_err:
  "\<exists>line. stderr (snd (loggingMiddleware_Count LogfmtLogger next ctx s w)) =
            stderr (snd (Count next ctx s (snd (time_Now w)))) @ [line] \<and>
          keys line = [''method'', ''input'', ''n'', ''took''] \<and>
          ''err'' \<notin> set (keys line)"
  by (simp add: logging_Count_line keys_def Let_def split: prod.splits)

text \<open>
  At the empty string, over the string service: the call fails with
  \<^verbatim>\<open>Empty string\<close>, and the line written does not say so.
\<close>

theorem loggingMiddleware_Count_omits_err_witness:
  "snd (fst (loggingMiddleware_Count LogfmtLogger (stringService id) () ''''
              boot))
     = Some (errorString ''Empty string'') \<and>
   stderr (snd (loggingMiddleware_Count LogfmtLogger (stringService id) () ''''
                 boot))
     = [[(''method'', LString ''count''), (''input'', LString ''''), (''n'', LInt (- 1)),
         (''took'', LDuration 1000)]]"
  using loggingMiddleware_Count_omits_err
    [of "stringService id" "()" "''''" boot]
  by (simp add: logging_Count_line logging_Count_result stringService_def
      stringService_Count_def errors_New_def boot_def startup_def tick_def time_Now_def)


text \<open>
  What the instrumenting middleware leaves in the three metrics of \<^verbatim>\<open>main\<close>, after
  whatever the inner call left there.
\<close>

lemma instrumenting_Uppercase_metrics:
  "request_count (snd (instrumentingMiddleware_Uppercase prom_requestCount prom_requestLatency
       prom_countResult next ctx s w)) =
     (let ((output, err), w2) = Uppercase next ctx s (snd (time_Now w));
          lvs = [''method'', ''uppercase'', ''error'', fmt_Sprint (err \<noteq> None)]
      in (request_count w2)(lvs := request_count w2 lvs + 1)) \<and>
   request_latency (snd (instrumentingMiddleware_Uppercase prom_requestCount prom_requestLatency
       prom_countResult next ctx s w)) =
     (let ((output, err), w2) = Uppercase next ctx s (snd (time_Now w));
          lvs = [''method'', ''uppercase'', ''error'', fmt_Sprint (err \<noteq> None)]
      in request_latency w2 @ [(lvs, Seconds (clock w2 (reads w2) - clock w (reads w)))])"
  by (simp add: instrumentingMiddleware_Uppercase_def prom_requestCount_def
      prom_requestLatency_def time_Since_def time_Now_def Let_def split: prod.splits)

lemma instrumenting_Count_request_count:
  "request_count (snd (instrumentingMiddleware_Count prom_requestCount prom_requestLatency
       prom_countResult next ctx s w)) =
     (let w2 = snd (Count next ctx s (snd (time_Now w)));
          lvs = [''method'', ''count'', ''error'', ''false'']
      in (request_count w2)(lvs := request_count w2 lvs + 1))"
  by (simp add: instrumentingMiddleware_Count_def prom_requestCount_def
      prom_requestLatency_def prom_countResult_def time_Since_def time_Now_def Let_def
      split: prod.splits)

lemma instrumenting_Count_request_latency:
  "request_latency (snd (instrumentingMiddleware_Count prom_requestCount prom_requestLatency
       prom_countResult next ctx s w)) =
     (let w2 = snd (Count next ctx s (snd (time_Now w)));
          lvs = [''method'', ''count'', ''error'', ''false'']
      in request_latency w2 @ [(lvs, Seconds (clock w2 (reads w2) - clock w (reads w)))])"
  by (simp add: instrumentingMiddleware_Count_def prom_requestCount_def
      prom_requestLatency_def prom_countResult_def time_Since_def time_Now_def Let_def
      split: prod.splits)

lemma instrumenting_Count_count_result:
  "count_result (snd (instrumentingMiddleware_Count prom_requestCount prom_requestLatency
       prom_countResult next ctx s w)) =
     (let ((n, err), w2) = Count next ctx s (snd (time_Now w))
      in count_result w2 @ [float64_of_int n])"
  by (simp add: instrumentingMiddleware_Count_def prom_requestCount_def
      prom_requestLatency_def prom_countResult_def time_Since_def time_Now_def Let_def
      split: prod.splits)

text \<open>
  Claim C3. Through the instrumenting middleware, every call of either operation adds
  one to the request counter under the labels of the operation and of whether the call
  failed, and the latency is observed under the same labels; in particular a failing
  \<^verbatim>\<open>Count\<close> is counted with \<^verbatim>\<open>error=true\<close>.

  The code does not do that for \<^verbatim>\<open>Count\<close>. Its \<^verbatim>\<open>Count\<close> method counts and observes
  every call under \<^verbatim>\<open>method=count, error=false\<close>, whatever the inner call returned: the
  label is the constant \<^verbatim>\<open>"false"\<close>. The \<^verbatim>\<open>Uppercase\<close> method beside it computes the
  label from the error (\<open>instrumenting_Uppercase_metrics\<close>).
\<close>

theorem instrumentingMiddleware_Count_error_label_false:
  "request_count (snd (instrumentingMiddleware_Count prom_requestCount prom_requestLatency
       prom_countResult next ctx s w)) =
     (request_count (snd (Count next ctx s (snd (time_Now w)))))
       ([''method'', ''count'', ''error'', ''false''] :=
          request_count (snd (Count next ctx s (snd (time_Now w))))
            [''method'', ''count'', ''error'', ''false''] + 1) \<and>
   (\<exists>v. request_latency (snd (instrumentingMiddleware_Count prom_requestCount
            prom_requestLatency prom_countResult next ctx s w)) =
        request_latency (snd (Count next ctx s (snd (time_Now w)))) @
          [([''method'', ''count'', ''error'', ''false''], v)])"
  by (simp add: instrumenting_Count_request_count instrumenting_Count_request_latency Let_def)

text \<open>
  At the empty string, over the string service: the call fails with
  \<^verbatim>\<open>Empty string\<close>, the series \<^verbatim>\<open>error=false\<close> goes from 0 to 1 and the series
  \<^verbatim>\<open>error=true\<close> stays at 0.
\<close>

theorem instrumentingMiddleware_Count_error_label_false_witness:
  "snd (fst (instrumentingMiddleware_Count prom_requestCount prom_requestLatency prom_countResult
         (stringService id) () '''' boot))
     = Some (errorString ''Empty string'') \<and>
   request_count (snd (instrumentingMiddleware_Count prom_requestCount prom_requestLatency
         prom_countResult (stringService id) () '''' boot))
       [''method'', ''count'', ''error'', ''false''] = 1 \<and>
   request_count (snd (instrumentingMiddleware_Count prom_requestCount prom_requestLatency
         prom_countResult (stringService id) () '''' boot))
       [''method'', ''count'', ''error'', ''true''] = 0 \<and>
   request_latency (snd (instrumentingMiddleware_Count prom_requestCount prom_requestLatency
         prom_countResult (stringService id) () '''' boot))
     = [([''method'', ''count'', ''error'', ''false''], 1 / 1000000)]"
  using instrumentingMiddleware_Count_error_label_false
    [of "stringService id" "()" "''''" boot]
  by (simp add: instrumenting_Count_request_latency instrumenting_Count_result stringService_def
      stringService_Count_def errors_New_def boot_def startup_def tick_def time_Now_def Seconds_def)

text \<open>
  Claim C7. Every call of \<^verbatim>\<open>Count\<close> through the instrumenting middleware observes, in
  the count-result summary, exactly the number that the wrapped \<^verbatim>\<open>Count\<close> returned; on a
  failing call that is the sentinel \<open>-1\<close>.

  The observation comes after whatever the inner call observed, and it is the
  conversion of the number that the inner call returned, which is also the number the
  middleware returns. In the service of \<^verbatim>\<open>main\<close> the observation is the number the call
  returns, and \<open>-1\<close> at the empty string.
\<close>

theorem instrumentingMiddleware_Count_observes_result:
  "count_result (snd (instrumentingMiddleware_Count prom_requestCount prom_requestLatency
       prom_countResult next ctx s w)) =
     count_result (snd (Count next ctx s (snd (time_Now w)))) @
       [float64_of_int (fst (fst (Count next ctx s (snd (time_Now w)))))] \<and>
   fst (fst (instrumentingMiddleware_Count prom_requestCount prom_requestLatency
       prom_countResult next ctx s w)) = fst (fst (Count next ctx s (snd (time_Now w)))) \<and>
   count_result (snd (Count (main_svc U) ctx s w)) =
     count_result w @ [float64_of_int (fst (fst (Count (main_svc U) ctx s w)))] \<and>
   count_result (snd (Count (main_svc U) ctx '''' w)) = count_result w @ [- 1]"
  by (simp add: instrumenting_Count_count_result instrumenting_Count_result Let_def
      main_svc_def instrumentingMiddleware_def loggingMiddleware_def stringService_def
      loggingMiddleware_Count_def LogfmtLogger_def stringService_Count_def time_Now_def
      time_Since_def float64_of_int_def
      split: prod.splits)

theorem instrumentingMiddleware_Count_observes_result_witness:
  "count_result (snd (Count (main_svc id) () '''' boot)) = [- 1] \<and>
   count_result (snd (Count (main_svc id) () ''hello'' boot)) = [5]"
  using instrumentingMiddleware_Count_observes_result
      [of "loggingMiddleware LogfmtLogger (stringService id)" "()" "''''"
          boot]
    instrumentingMiddleware_Count_observes_result
      [of "loggingMiddleware LogfmtLogger (stringService id)" "()" "''hello''"
          boot]
  by (simp add: main_svc_def instrumentingMiddleware_def loggingMiddleware_def stringService_def
      loggingMiddleware_Count_def LogfmtLogger_def stringService_Count_def time_Now_def
      time_Since_def float64_of_int_def boot_def startup_def tick_def)


text \<open>
  Claim C4. For every string and every wrapped service, wrapping it with the logging
  middleware, the instrumenting middleware or both gives, from \<^verbatim>\<open>Uppercase\<close> and from
  \<^verbatim>\<open>Count\<close>, exactly the value and error of the wrapped service.

  A middleware takes one clock reading before it delegates, so the wrapped service
  runs in the world after that reading (after two readings under two middlewares); the
  results of the middleware are the results of that call, whatever the logger and the
  metrics are. The string service does not look at the world, so the service of
  \<^verbatim>\<open>main\<close> returns what the bare string service returns from the same world.
\<close>

theorem middleware_returns_wrapped_results:
  "fst (Uppercase (loggingMiddleware logger next) ctx s w) =
     fst (Uppercase next ctx s (snd (time_Now w))) \<and>
   fst (Count (loggingMiddleware logger next) ctx s w) =
     fst (Count next ctx s (snd (time_Now w))) \<and>
   fst (Uppercase (instrumentingMiddleware rc rl cr next) ctx s w) =
     fst (Uppercase next ctx s (snd (time_Now w))) \<and>
   fst (Count (instrumentingMiddleware rc rl cr next) ctx s w) =
     fst (Count next ctx s (snd (time_Now w))) \<and>
   fst (Uppercase (instrumentingMiddleware rc rl cr (loggingMiddleware logger next)) ctx s w) =
     fst (Uppercase next ctx s (snd (time_Now (snd (time_Now w))))) \<and>
   fst (Count (instrumentingMiddleware rc rl cr (loggingMiddleware logger next)) ctx s w) =
     fst (Count next ctx s (snd (time_Now (snd (time_Now w))))) \<and>
   fst (Uppercase (loggingMiddleware logger (instrumentingMiddleware rc rl cr next)) ctx s w) =
     fst (Uppercase next ctx s (snd (time_Now (snd (time_Now w))))) \<and>
   fst (Count (loggingMiddleware logger (instrumentingMiddleware rc rl cr next)) ctx s w) =
     fst (Count next ctx s (snd (time_Now (snd (time_Now w))))) \<and>
   fst (Uppercase (main_svc U) ctx s w) = fst (Uppercase (stringService U) ctx s w) \<and>
   fst (Count (main_svc U) ctx s w) = fst (Count (stringService U) ctx s w)"
  by (simp add: loggingMiddleware_def instrumentingMiddleware_def
      logging_Uppercase_result logging_Count_result
      instrumenting_Uppercase_result instrumenting_Count_result
      main_svc_Uppercase_result main_svc_Count_result stringService_def)

theorem middleware_returns_wrapped_results_witness:
  "fst (Uppercase (loggingMiddleware LogfmtLogger (stringService id)) () ''hello''
         boot) = (''HELLO'', None) \<and>
   fst (Uppercase (stringService id) () ''hello'' boot)
     = (''HELLO'', None) \<and>
   fst (Count (instrumentingMiddleware prom_requestCount prom_requestLatency prom_countResult
          (stringService id)) () '''' boot)
     = (- 1, Some (errorString ''Empty string'')) \<and>
   fst (Count (stringService id) () '''' boot)
     = (- 1, Some (errorString ''Empty string''))"
proof -
  have up: "ToUpper id ''hello'' = ''HELLO''"
    by (rule hello_upper)
  show ?thesis
    using middleware_returns_wrapped_results
            [of LogfmtLogger "stringService id" "()" "''hello''"
                boot]
          middleware_returns_wrapped_results
            [of _ "stringService id" "()" "''''" boot
                prom_requestCount prom_requestLatency prom_countResult]
    by (simp add: stringService_def stringService_Uppercase_def stringService_Count_def
        errors_New_def up)
qed



text \<open>
  Claim C8. Two identical calls of \<^verbatim>\<open>Uppercase\<close>, or of \<^verbatim>\<open>Count\<close>, return identical
  values and errors: the operations are functions of their input and keep no state
  from one call to the next.

  The results of the string service are the same from any two worlds, and a call
  leaves the world as it found it. Through the service of \<^verbatim>\<open>main\<close>, a second call made
  in the world that the first one left (one more line logged, the metrics moved on)
  returns what the first one returned. Errors are compared by their messages.
\<close>

theorem service_calls_repeatable:
  "fst (stringService_Uppercase U ctx s w) = fst (stringService_Uppercase U ctx s w') \<and>
   snd (stringService_Uppercase U ctx s w) = w \<and>
   fst (stringService_Count ctx s w) = fst (stringService_Count ctx s w') \<and>
   snd (stringService_Count ctx s w) = w \<and>
   fst (Uppercase (main_svc U) ctx s (snd (Uppercase (main_svc U) ctx s w))) =
     fst (Uppercase (main_svc U) ctx s w) \<and>
   fst (Count (main_svc U) ctx s (snd (Count (main_svc U) ctx s w))) =
     fst (Count (main_svc U) ctx s w)"
  by (simp add: main_svc_Uppercase_result main_svc_Count_result
      stringService_Uppercase_def stringService_Count_def)

text \<open>
  Two calls of \<^verbatim>\<open>Count\<close> at the empty string, one after the other: both fail in the
  same way, and two lines have been logged.
\<close>

theorem service_calls_repeatable_witness:
  "fst (Count (main_svc id) () '''' (snd (Count (main_svc id) () '''' boot))) =
     (- 1, Some (errorString ''Empty string'')) \<and>
   fst (Count (main_svc id) () '''' boot) = (- 1, Some (errorString ''Empty string'')) \<and>
   length (stderr (snd (Count (main_svc id) () '''' (snd (Count (main_svc id) () '''' boot)))))
     = 2"
proof -
  have first: "fst (Count (main_svc id) () '''' boot) =
      (- 1, Some (errorString ''Empty string''))"
    by (simp add: main_svc_Count_result stringService_Count_def errors_New_def)
  have lines: "length (stderr (snd (Count (main_svc id) () ''''
         (snd (Count (main_svc id) () '''' boot))))) = 2"
    by (simp add: main_svc_def instrumentingMiddleware_def loggingMiddleware_def
        stringService_def instrumentingMiddleware_Count_def loggingMiddleware_Count_def
        LogfmtLogger_def prom_requestCount_def prom_requestLatency_def prom_countResult_def
        stringService_Count_def time_Now_def time_Since_def boot_def startup_def Let_def)
  have again: "fst (Count (main_svc id) () '''' (snd (Count (main_svc id) () '''' boot))) =
      fst (Count (main_svc id) () '''' boot)"
    using service_calls_repeatable [of id "()" "''''" boot boot]
    by blast
  show ?thesis
    using first lines again by simp
qed

text \<open>
  Claim C9. The number that \<^verbatim>\<open>Count\<close> returns is \<open>-1\<close> exactly when the input is empty
  and at least 1 when it is not; it is never 0.
\<close>

theorem stringService_Count_sentinel:
  "(fst (fst (stringService_Count ctx s w)) = - 1) = (s = '''') \<and>
   (s \<noteq> '''' \<longrightarrow> 1 \<le> fst (fst (stringService_Count ctx s w))) \<and>
   fst (fst (stringService_Count ctx s w)) \<noteq> 0"
  by (cases s) (simp_all add: stringService_Count_def)

theorem stringService_Count_sentinel_witness:
  "''a'' \<noteq> '''' \<and> fst (fst (stringService_Count () ''a'' boot)) = 1 \<and>
   fst (fst (stringService_Count () '''' boot)) = - 1"
  using stringService_Count_sentinel [of "()" "''a''" boot]
        stringService_Count_sentinel [of "()" "''''" boot]
  by (simp add: stringService_Count_def)


text \<open>
  On a string of ASCII bytes the characters are the bytes.
\<close>

lemma character_length_ascii: "list_all isASCII s \<Longrightarrow> character_length s = length s"
  by (induction s) (simp_all add: character_length_def is_continuation_def isASCII_def)

lemma endpoint_Count_ok:
  "Count svc ctx s w = ((v, None), w') \<Longrightarrow>
   makeCountEndpoint svc ctx (CountRequest (countRequest s)) w =
     (Inr (CountResponse (countResponse v ''''), None), w')"
  by (simp add: makeCountEndpoint_def)

text \<open>
  Claim C1. For every string that is not empty, \<^verbatim>\<open>Count\<close> returns the character length
  of the string and no error, and the response of the endpoint has that number in
  \<^verbatim>\<open>v\<close> and an empty \<^verbatim>\<open>err\<close>.

  The code returns \<^verbatim>\<open>len(s)\<close>, the number of bytes. The string of the one letter e
  with an acute accent (the two bytes C3 A9 in UTF-8) has one character, and \<^verbatim>\<open>Count\<close>
  returns 2.
\<close>

theorem stringService_Count_not_character_length:
  "[char_of (195::nat), char_of (169::nat)] \<noteq> '''' \<and>
   fst (stringService_Count () [char_of (195::nat), char_of (169::nat)] boot) = (2, None) \<and>
   character_length [char_of (195::nat), char_of (169::nat)] = 1"
  by (simp add: stringService_Count_def character_length_def is_continuation_def)

text \<open>
  Claim C1, amended. For every string that is not empty, \<^verbatim>\<open>Count\<close> returns the number
  of bytes of the string and no error, bare and through the middlewares of \<^verbatim>\<open>main\<close>,
  and the response of the endpoint has that number in \<^verbatim>\<open>v\<close> and an empty \<^verbatim>\<open>err\<close>; the
  number of bytes is the character length when every byte is ASCII.
\<close>

theorem stringService_Count_byte_length:
  "s \<noteq> '''' \<Longrightarrow>
   fst (stringService_Count ctx s w) = (int (length s), None) \<and>
   fst (Count (main_svc U) ctx s w) = (int (length s), None) \<and>
   fst (makeCountEndpoint (main_svc U) ctx (CountRequest (countRequest s)) w) =
     Inr (CountResponse (countResponse (int (length s)) ''''), None) \<and>
   (list_all isASCII s \<longrightarrow> int (length s) = int (character_length s))"
proof -
  assume ne: "s \<noteq> ''''"
  have bare: "fst (stringService_Count ctx s w) = (int (length s), None)"
    using ne by (simp add: stringService_Count_def)
  have wrapped: "fst (Count (main_svc U) ctx s w) = (int (length s), None)"
    using bare by (simp add: main_svc_Count_result)
  obtain w' where w': "Count (main_svc U) ctx s w = ((int (length s), None), w')"
    using wrapped by (cases "Count (main_svc U) ctx s w") auto
  have response:
    "fst (makeCountEndpoint (main_svc U) ctx (CountRequest (countRequest s)) w) =
     Inr (CountResponse (countResponse (int (length s)) ''''), None)"
    using endpoint_Count_ok [OF w'] by simp
  show ?thesis
    using bare wrapped response by (simp add: character_length_ascii)
qed

theorem stringService_Count_byte_length_witness:
  "''hello'' \<noteq> '''' \<and>
   fst (stringService_Count () ''hello'' boot) = (5, None) \<and>
   fst (makeCountEndpoint (main_svc id) () (CountRequest (countRequest ''hello'')) boot) =
     Inr (CountResponse (countResponse 5 ''''), None) \<and>
   character_length ''hello'' = 5"
proof -
  have asc: "list_all isASCII ''hello''"
    by code_simp
  have ne: "''hello'' \<noteq> ''''"
    by simp
  show ?thesis
    using stringService_Count_byte_length [OF ne, of "()" boot id] asc
    by simp
qed


text \<open>
  What an endpoint makes of the results of the service, for a request of its own type.
\<close>

lemma endpoint_Uppercase_response:
  "\<exists>res. makeUppercaseEndpoint svc ctx (UppercaseRequest req) w =
           (Inr (UppercaseResponse res, None),
            snd (Uppercase svc ctx (uppercaseRequest_S req) w)) \<and>
         (case snd (fst (Uppercase svc ctx (uppercaseRequest_S req) w)) of
            Some e \<Rightarrow> uppercaseResponse_V res = '''' \<and> uppercaseResponse_Err res = Error e
          | None \<Rightarrow>
              uppercaseResponse_V res = fst (fst (Uppercase svc ctx (uppercaseRequest_S req) w)) \<and>
              uppercaseResponse_Err res = '''')"
  by (simp add: makeUppercaseEndpoint_def split: prod.splits option.splits)

lemma endpoint_Count_response:
  "\<exists>res. makeCountEndpoint svc ctx (CountRequest req) w =
           (Inr (CountResponse res, None), snd (Count svc ctx (countRequest_S req) w)) \<and>
         (case snd (fst (Count svc ctx (countRequest_S req) w)) of
            Some e \<Rightarrow> countResponse_V res = - 1 \<and> countResponse_Err res = Error e
          | None \<Rightarrow>
              countResponse_V res = fst (fst (Count svc ctx (countRequest_S req) w)) \<and>
              countResponse_Err res = '''')"
  by (simp add: makeCountEndpoint_def split: prod.splits option.splits)

lemma main_svc_Uppercase_error:
  "snd (fst (Uppercase (main_svc U) ctx s w)) =
     (if s = '''' then Some (errorString ''Empty string'') else None)"
  by (simp add: main_svc_Uppercase_result stringService_Uppercase_def errors_New_def)

lemma main_svc_Count_error:
  "snd (fst (Count (main_svc U) ctx s w)) =
     (if s = '''' then Some (errorString ''Empty string'') else None)"
  by (simp add: main_svc_Count_result stringService_Count_def errors_New_def)

lemma endpoint_Uppercase_main_err:
  "\<exists>res. fst (makeUppercaseEndpoint (main_svc U) ctx (UppercaseRequest req) w) =
           Inr (UppercaseResponse res, None) \<and>
         (uppercaseResponse_Err res \<noteq> '''') =
           (snd (fst (Uppercase (main_svc U) ctx (uppercaseRequest_S req) w)) \<noteq> None)"
proof -
  obtain res where res:
    "makeUppercaseEndpoint (main_svc U) ctx (UppercaseRequest req) w =
       (Inr (UppercaseResponse res, None),
        snd (Uppercase (main_svc U) ctx (uppercaseRequest_S req) w))"
    "case snd (fst (Uppercase (main_svc U) ctx (uppercaseRequest_S req) w)) of
       Some e \<Rightarrow> uppercaseResponse_V res = '''' \<and> uppercaseResponse_Err res = Error e
     | None \<Rightarrow>
         uppercaseResponse_V res =
           fst (fst (Uppercase (main_svc U) ctx (uppercaseRequest_S req) w)) \<and>
         uppercaseResponse_Err res = ''''"
    using endpoint_Uppercase_response [of "main_svc U" ctx req w] by blast
  have "(uppercaseResponse_Err res \<noteq> '''') =
          (snd (fst (Uppercase (main_svc U) ctx (uppercaseRequest_S req) w)) \<noteq> None)"
    using res(2) by (simp add: main_svc_Uppercase_error split: if_splits)
  then show ?thesis
    using res(1) by auto
qed

lemma endpoint_Count_main_err:
  "\<exists>res. fst (makeCountEndpoint (main_svc U) ctx (CountRequest req) w) =
           Inr (CountResponse res, None) \<and>
         (countResponse_Err res \<noteq> '''') =
           (snd (fst (Count (main_svc U) ctx (countRequest_S req) w)) \<noteq> None)"
proof -
  obtain res where res:
    "makeCountEndpoint (main_svc U) ctx (CountRequest req) w =
       (Inr (CountResponse res, None), snd (Count (main_svc U) ctx (countRequest_S req) w))"
    "case snd (fst (Count (main_svc U) ctx (countRequest_S req) w)) of
       Some e \<Rightarrow> countResponse_V res = - 1 \<and> countResponse_Err res = Error e
     | None \<Rightarrow>
         countResponse_V res = fst (fst (Count (main_svc U) ctx (countRequest_S req) w)) \<and>
         countResponse_Err res = ''''"
    using endpoint_Count_response [of "main_svc U" ctx req w] by blast
  have "(countResponse_Err res \<noteq> '''') =
          (snd (fst (Count (main_svc U) ctx (countRequest_S req) w)) \<noteq> None)"
    using res(2) by (simp add: main_svc_Count_error split: if_splits)
  then show ?thesis
    using res(1) by auto
qed

text \<open>
  Claim C6. For every request, each endpoint returns a response and no transport
  error: when the call of the service fails, the response has the message of the error
  in \<^verbatim>\<open>err\<close>, with \<^verbatim>\<open>v\<close> empty for uppercase and \<open>-1\<close> for count; when it succeeds, the
  response has the result in \<^verbatim>\<open>v\<close> and an empty \<^verbatim>\<open>err\<close>; so \<^verbatim>\<open>err\<close> is not empty exactly
  when the operation failed.

  The first two parts hold for any service behind the endpoint, and the endpoint leaves
  the world as the service left it. The last part holds for the service of \<^verbatim>\<open>main\<close>,
  whose only error has the message \<^verbatim>\<open>Empty string\<close>. The requests are those of the
  endpoint's own type, the only ones its decoder makes; the type assertion panics on
  any other value.
\<close>

theorem endpoint_errors_in_band:
  "(\<exists>res. makeUppercaseEndpoint svc ctx (UppercaseRequest ureq) w =
           (Inr (UppercaseResponse res, None),
            snd (Uppercase svc ctx (uppercaseRequest_S ureq) w)) \<and>
         (case snd (fst (Uppercase svc ctx (uppercaseRequest_S ureq) w)) of
            Some e \<Rightarrow> uppercaseResponse_V res = '''' \<and> uppercaseResponse_Err res = Error e
          | None \<Rightarrow>
              uppercaseResponse_V res = fst (fst (Uppercase svc ctx (uppercaseRequest_S ureq) w)) \<and>
              uppercaseResponse_Err res = '''')) \<and>
   (\<exists>res. makeCountEndpoint svc ctx (CountRequest creq) w =
           (Inr (CountResponse res, None), snd (Count svc ctx (countRequest_S creq) w)) \<and>
         (case snd (fst (Count svc ctx (countRequest_S creq) w)) of
            Some e \<Rightarrow> countResponse_V res = - 1 \<and> countResponse_Err res = Error e
          | None \<Rightarrow>
              countResponse_V res = fst (fst (Count svc ctx (countRequest_S creq) w)) \<and>
              countResponse_Err res = '''')) \<and>
   (\<exists>res. fst (makeUppercaseEndpoint (main_svc U) ctx (UppercaseRequest ureq) w) =
           Inr (UppercaseResponse res, None) \<and>
         (uppercaseResponse_Err res \<noteq> '''') =
           (snd (fst (Uppercase (main_svc U) ctx (uppercaseRequest_S ureq) w)) \<noteq> None)) \<and>
   (\<exists>res. fst (makeCountEndpoint (main_svc U) ctx (CountRequest creq) w) =
           Inr (CountResponse res, None) \<and>
         (countResponse_Err res \<noteq> '''') =
           (snd (fst (Count (main_svc U) ctx (countRequest_S creq) w)) \<noteq> None))"
  using endpoint_Uppercase_response [of svc ctx ureq w]
    endpoint_Count_response [of svc ctx creq w]
    endpoint_Uppercase_main_err [of U ctx ureq w]
    endpoint_Count_main_err [of U ctx creq w]
  by blast

theorem endpoint_errors_in_band_witness:
  "fst (makeUppercaseEndpoint (main_svc id) () (UppercaseRequest (uppercaseRequest '''')) boot) =
     Inr (UppercaseResponse (uppercaseResponse '''' ''Empty string''), None) \<and>
   fst (makeUppercaseEndpoint (main_svc id) () (UppercaseRequest (uppercaseRequest ''hello'')) boot) =
     Inr (UppercaseResponse (uppercaseResponse ''HELLO'' ''''), None) \<and>
   fst (makeCountEndpoint (main_svc id) () (CountRequest (countRequest '''')) boot) =
     Inr (CountResponse (countResponse (- 1) ''Empty string''), None) \<and>
   fst (makeCountEndpoint (main_svc id) () (CountRequest (countRequest ''hello'')) boot) =
     Inr (CountResponse (countResponse 5 ''''), None)"
proof -
  have u: "fst (Uppercase (main_svc id) () '''' boot) = ('''', Some (errorString ''Empty string''))"
    "fst (Uppercase (main_svc id) () ''hello'' boot) = (''HELLO'', None)"
    by (simp_all add: main_svc_Uppercase_result stringService_Uppercase_def errors_New_def
        hello_upper)
  have c: "fst (Count (main_svc id) () '''' boot) = (- 1, Some (errorString ''Empty string''))"
    "fst (Count (main_svc id) () ''hello'' boot) = (5, None)"
    by (simp_all add: main_svc_Count_result stringService_Count_def errors_New_def)
  show ?thesis
    using endpoint_errors_in_band [of "main_svc id" "()" "uppercaseRequest ''''" boot "countRequest ''''" id]
      endpoint_errors_in_band [of "main_svc id" "()" "uppercaseRequest ''hello''" boot "countRequest ''hello''" id]
      u c
    by (auto simp: uppercaseResponse.expand countResponse.expand)
qed

text \<open>
  Decoding an object none of whose keys names the field leaves the field as it was.
\<close>

lemma decode_members_skip:
  "list_all (\<lambda>kv. \<not> names_field_s (fst kv)) ms \<Longrightarrow>
   decode_members ms S failed = (if failed then Inl UnmarshalTypeError else Inr S)"
  by (induction ms arbitrary: S failed) auto

lemma ServeHTTP_ok:
  "dec ctx r = (request, None) \<Longrightarrow> e ctx request w = (Inr (response, None), w') \<Longrightarrow>
   ServeHTTP e dec ctx r w = (Encoded (encodeResponse response), w')"
  by (simp add: ServeHTTP_def)

lemma Empty_string_ascii: "list_all isASCII ''Empty string''"
  by (simp add: isASCII_def)

lemma abc_ascii: "list_all isASCII ''abc''"
  by (simp add: isASCII_def)

lemma ABC_ascii: "list_all isASCII ''ABC''"
  by (simp add: isASCII_def)

lemma abc_upperASCII: "map upperASCII ''abc'' = ''ABC''"
  by code_simp

text \<open>
  Claim C10. A body that is syntactically valid JSON and has no \<^verbatim>\<open>s\<close> field, such as
  \<^verbatim>\<open>{}\<close>, decodes into a request whose \<^verbatim>\<open>s\<close> is the empty string; the request reaches
  the service, and the answer is the response with the error \<^verbatim>\<open>Empty string\<close> in it,
  not a transport error.

  Two bodies say otherwise. The object with the one member \<^verbatim>\<open>"S":"abc"\<close> has no member
  under the key \<^verbatim>\<open>s\<close>, but the decoder folds case when it matches a key to a field:
  the request has \<^verbatim>\<open>abc\<close> in \<^verbatim>\<open>s\<close>, and the answers are \<^verbatim>\<open>{"v":"ABC"}\<close> and \<^verbatim>\<open>{"v":3}\<close>
  with no error in them. The empty array is valid JSON without the field, and it does
  not decode into the struct: the answer is a transport error.
\<close>

theorem decode_key_S_or_array_counterexample:
  "map_of [(''S'', JString ''abc'')] ''s'' = None \<and>
   decodeUppercaseRequest () \<lparr>Body = Value (JObject [(''S'', JString ''abc'')])\<rparr> =
     (UppercaseRequest (uppercaseRequest ''abc''), None) \<and>
   fst (uppercaseHandler id () \<lparr>Body = Value (JObject [(''S'', JString ''abc'')])\<rparr> boot) =
     Encoded (JObject [(''v'', JString ''ABC'')]) \<and>
   fst (countHandler id () \<lparr>Body = Value (JObject [(''S'', JString ''abc'')])\<rparr> boot) =
     Encoded (JObject [(''v'', JNumber 3)]) \<and>
   uppercaseHandler id () \<lparr>Body = Value (JArray [])\<rparr> boot =
     (TransportError UnmarshalTypeError, boot) \<and>
   countHandler id () \<lparr>Body = Value (JArray [])\<rparr> boot =
     (TransportError UnmarshalTypeError, boot)"
proof -
  have du: "decodeUppercaseRequest () \<lparr>Body = Value (JObject [(''S'', JString ''abc'')])\<rparr> =
     (UppercaseRequest (uppercaseRequest ''abc''), None)"
    by (simp add: decodeUppercaseRequest_def json_Decode_def names_field_s_def
        coerce_utf8_ascii [OF abc_ascii])
  have dc: "decodeCountRequest () \<lparr>Body = Value (JObject [(''S'', JString ''abc'')])\<rparr> =
     (CountRequest (countRequest ''abc''), None)"
    by (simp add: decodeCountRequest_def json_Decode_def names_field_s_def
        coerce_utf8_ascii [OF abc_ascii])
  have up: "ToUpper id ''abc'' = ''ABC''"
    by (simp only: ToUpper_characterwise strings_Map_ToUpper_ascii [OF abc_ascii]
        abc_upperASCII)
  have ru: "fst (Uppercase (main_svc id) () ''abc'' boot) = (''ABC'', None)"
    by (simp add: main_svc_Uppercase_result stringService_Uppercase_def up)
  have rc: "fst (Count (main_svc id) () ''abc'' boot) = (3, None)"
    by (simp add: main_svc_Count_result stringService_Count_def)
  have eu: "makeUppercaseEndpoint (main_svc id) () (UppercaseRequest (uppercaseRequest ''abc''))
      boot =
      (Inr (UppercaseResponse (uppercaseResponse ''ABC'' ''''), None),
       snd (Uppercase (main_svc id) () ''abc'' boot))"
    using endpoint_Uppercase_response [of "main_svc id" "()" "uppercaseRequest ''abc''" boot] ru
    by (auto simp: uppercaseResponse.expand)
  have ec: "makeCountEndpoint (main_svc id) () (CountRequest (countRequest ''abc'')) boot =
      (Inr (CountResponse (countResponse 3 ''''), None),
       snd (Count (main_svc id) () ''abc'' boot))"
    using endpoint_Count_response [of "main_svc id" "()" "countRequest ''abc''" boot] rc
    by (auto simp: countResponse.expand)
  have hu: "fst (uppercaseHandler id () \<lparr>Body = Value (JObject [(''S'', JString ''abc'')])\<rparr>
      boot) = Encoded (JObject [(''v'', JString ''ABC'')])"
    unfolding uppercaseHandler_def
    by (simp add: ServeHTTP_ok [of decodeUppercaseRequest "()" _ _
          "makeUppercaseEndpoint (main_svc id)" boot, OF du eu]
        encodeResponse_def coerce_utf8_ascii [OF ABC_ascii])
  have hc: "fst (countHandler id () \<lparr>Body = Value (JObject [(''S'', JString ''abc'')])\<rparr>
      boot) = Encoded (JObject [(''v'', JNumber 3)])"
    unfolding countHandler_def
    by (simp add: ServeHTTP_ok [of decodeCountRequest "()" _ _
          "makeCountEndpoint (main_svc id)" boot, OF dc ec]
        encodeResponse_def)
  have arr: "uppercaseHandler id () \<lparr>Body = Value (JArray [])\<rparr> boot =
       (TransportError UnmarshalTypeError, boot)"
    "countHandler id () \<lparr>Body = Value (JArray [])\<rparr> boot =
       (TransportError UnmarshalTypeError, boot)"
    by (simp_all add: uppercaseHandler_def countHandler_def ServeHTTP_def
        decodeUppercaseRequest_def decodeCountRequest_def json_Decode_def)
  show ?thesis
    using du hu hc arr by simp
qed

text \<open>
  Claim C10, amended. A body that is a JSON object none of whose keys names the field
  \<^verbatim>\<open>s\<close> (a key names it when it is \<^verbatim>\<open>s\<close> up to the case folding of the decoder: \<^verbatim>\<open>s\<close>,
  \<^verbatim>\<open>S\<close> or the long s), such as \<^verbatim>\<open>{}\<close>, decodes into a request whose \<^verbatim>\<open>s\<close> is the empty
  string; the request reaches the service, and the answer is the response with the
  error \<^verbatim>\<open>Empty string\<close> in it, not a transport error.

  Both decoders succeed, both handlers answer with the encoded response, and the
  logging middleware has written one line, so the service was called.
\<close>

theorem decode_without_field_s:
  assumes "list_all (\<lambda>kv. \<not> names_field_s (fst kv)) ms"
  shows "decodeUppercaseRequest ctx \<lparr>Body = Value (JObject ms)\<rparr> =
           (UppercaseRequest (uppercaseRequest ''''), None) \<and>
         decodeCountRequest ctx \<lparr>Body = Value (JObject ms)\<rparr> =
           (CountRequest (countRequest ''''), None) \<and>
         fst (uppercaseHandler U ctx \<lparr>Body = Value (JObject ms)\<rparr> w) =
           Encoded (JObject [(''v'', JString ''''), (''err'', JString ''Empty string'')]) \<and>
         fst (countHandler U ctx \<lparr>Body = Value (JObject ms)\<rparr> w) =
           Encoded (JObject [(''v'', JNumber (- 1)), (''err'', JString ''Empty string'')]) \<and>
         length (stderr (snd (uppercaseHandler U ctx \<lparr>Body = Value (JObject ms)\<rparr> w))) =
           Suc (length (stderr w)) \<and>
         length (stderr (snd (countHandler U ctx \<lparr>Body = Value (JObject ms)\<rparr> w))) =
           Suc (length (stderr w))"
proof -
  have du: "decodeUppercaseRequest ctx \<lparr>Body = Value (JObject ms)\<rparr> =
           (UppercaseRequest (uppercaseRequest ''''), None)"
    using assms by (simp add: decodeUppercaseRequest_def json_Decode_def decode_members_skip)
  have dc: "decodeCountRequest ctx \<lparr>Body = Value (JObject ms)\<rparr> =
           (CountRequest (countRequest ''''), None)"
    using assms by (simp add: decodeCountRequest_def json_Decode_def decode_members_skip)
  have eu: "makeUppercaseEndpoint (main_svc U) ctx (UppercaseRequest (uppercaseRequest '''')) w =
      (Inr (UppercaseResponse (uppercaseResponse '''' ''Empty string''), None),
       snd (Uppercase (main_svc U) ctx '''' w))"
    using endpoint_Uppercase_response [of "main_svc U" ctx "uppercaseRequest ''''" w]
    by (auto simp: main_svc_Uppercase_error uppercaseResponse.expand)
  have ec: "makeCountEndpoint (main_svc U) ctx (CountRequest (countRequest '''')) w =
      (Inr (CountResponse (countResponse (- 1) ''Empty string''), None),
       snd (Count (main_svc U) ctx '''' w))"
    using endpoint_Count_response [of "main_svc U" ctx "countRequest ''''" w]
    by (auto simp: main_svc_Count_error countResponse.expand)
  have hu: "uppercaseHandler U ctx \<lparr>Body = Value (JObject ms)\<rparr> w =
      (Encoded (JObject [(''v'', JString ''''), (''err'', JString ''Empty string'')]),
       snd (Uppercase (main_svc U) ctx '''' w))"
    unfolding uppercaseHandler_def
    by (simp add: ServeHTTP_ok [of decodeUppercaseRequest ctx _ _
          "makeUppercaseEndpoint (main_svc U)" w, OF du eu]
        encodeResponse_def coerce_utf8_ascii [OF Empty_string_ascii] coerce_utf8_ascii)
  have hc: "countHandler U ctx \<lparr>Body = Value (JObject ms)\<rparr> w =
      (Encoded (JObject [(''v'', JNumber (- 1)), (''err'', JString ''Empty string'')]),
       snd (Count (main_svc U) ctx '''' w))"
    unfolding countHandler_def
    by (simp add: ServeHTTP_ok [of decodeCountRequest ctx _ _
          "makeCountEndpoint (main_svc U)" w, OF dc ec]
        encodeResponse_def coerce_utf8_ascii [OF Empty_string_ascii])
  have lu: "length (stderr (snd (Uppercase (main_svc U) ctx '''' w))) = Suc (length (stderr w))"
    by (simp add: main_svc_def instrumentingMiddleware_def loggingMiddleware_def
        stringService_def instrumentingMiddleware_Uppercase_def loggingMiddleware_Uppercase_def
        LogfmtLogger_def prom_requestCount_def prom_requestLatency_def
        stringService_Uppercase_def time_Now_def time_Since_def Let_def)
  have lc: "length (stderr (snd (Count (main_svc U) ctx '''' w))) = Suc (length (stderr w))"
    by (simp add: main_svc_def instrumentingMiddleware_def loggingMiddleware_def
        stringService_def instrumentingMiddleware_Count_def loggingMiddleware_Count_def
        LogfmtLogger_def prom_requestCount_def prom_requestLatency_def prom_countResult_def
        stringService_Count_def time_Now_def time_Since_def Let_def)
  show ?thesis
    using du dc hu hc lu lc by simp
qed

text \<open>At the body \<^verbatim>\<open>{}\<close>.\<close>

theorem decode_without_field_s_witness:
  "list_all (\<lambda>kv. \<not> names_field_s (fst kv)) [] \<and>
   decodeUppercaseRequest () \<lparr>Body = Value (JObject [])\<rparr> =
     (UppercaseRequest (uppercaseRequest ''''), None) \<and>
   fst (uppercaseHandler id () \<lparr>Body = Value (JObject [])\<rparr> boot) =
     Encoded (JObject [(''v'', JString ''''), (''err'', JString ''Empty string'')]) \<and>
   fst (countHandler id () \<lparr>Body = Value (JObject [])\<rparr> boot) =
     Encoded (JObject [(''v'', JNumber (- 1)), (''err'', JString ''Empty string'')])"
proof -
  have h: "list_all (\<lambda>kv. \<not> names_field_s (fst kv)) ([] :: (string \<times> json) list)"
    by simp
  show ?thesis
    using decode_without_field_s [OF h, of "()" id boot] by simp
qed

text \<open>
  For contrast, a body that does not hold a JSON value is answered with a transport
  error, and the world is untouched: the service is not called.
\<close>

lemma body_without_value:
  "uppercaseHandler U ctx \<lparr>Body = Malformed\<rparr> w = (TransportError SyntaxError, w) \<and>
   countHandler U ctx \<lparr>Body = Malformed\<rparr> w = (TransportError SyntaxError, w) \<and>
   countHandler U ctx \<lparr>Body = NoValue\<rparr> w = (TransportError (errorString ''EOF''), w) \<and>
   countHandler U ctx \<lparr>Body = Truncated\<rparr> w =
     (TransportError (errorString ''unexpected EOF''), w)"
  by (simp add: uppercaseHandler_def countHandler_def ServeHTTP_def
      decodeUppercaseRequest_def decodeCountRequest_def json_Decode_def errors_New_def)

end
